theory Spec2Isabelle
  imports Complex_Main "HOL-Library.Sublist" "HOL-Library.AList"
begin

section \<open>Report rows and telemetry responses (backend/src/server.js)\<close>

text \<open>
  A cell of the report is a JavaScript number or a string.  The number type \<open>'n\<close> is a
  parameter: the handler only tests readings for falsiness and subtracts them.
\<close>

datatype 'n cell = Num 'n | Str string

record 'n row =
  tokenId :: string
  vin :: string
  timestamp :: string
  odometerReading :: "'n cell"
  travelledDistance :: 'n

text \<open>
  The data object of a resolved telemetry query, as the GraphQL query of the handler shapes
  it.  \<open>None\<close> is a field that is null or absent.
\<close>

record 'n signal =
  powertrainTransmissionTravelledDistance :: "'n option"
  sample_timestamp :: "string option"

record 'n telemetry_data =
  vinVCLatest :: "string option option"
  signals :: "'n signal list option"

text \<open>
  What a resolved telemetry query returns: the envelope of the response, whose data object
  is null when the service answers with errors only.
\<close>

record 'n telemetry_result =
  data :: "'n telemetry_data option"

text \<open>\<open>x || 0\<close> on a nullable number: null, undefined and 0 are falsy.\<close>

definition or_zero :: "('n::zero) option \<Rightarrow> 'n" where
  "or_zero x = (case x of None \<Rightarrow> 0 | Some v \<Rightarrow> (if v = 0 then 0 else v))"

text \<open>\<open>x || 'N/A'\<close> on a nullable string: null, undefined and the empty string are falsy.\<close>

definition or_na :: "string option \<Rightarrow> string" where
  "or_na x = (case x of None \<Rightarrow> ''N/A'' | Some s \<Rightarrow> (if s = [] then ''N/A'' else s))"

text \<open>\<open>telemetryResult.data.vinVCLatest?.vin || 'N/A'\<close>\<close>

definition extract_vin :: "string option option \<Rightarrow> string" where
  "extract_vin v = (case v of None \<Rightarrow> ''N/A'' | Some vc \<Rightarrow> or_na vc)"

text \<open>
  The body of \<open>signals.forEach((signal, index) => ...)\<close>: \<open>index\<close> counts the samples
  already visited, the fifth argument holds the samples still to visit, and every visit
  pushes one row on \<open>reportData\<close>.
\<close>

fun push_signals ::
  "string \<Rightarrow> string \<Rightarrow> ('n::{zero,minus}) signal list \<Rightarrow> nat \<Rightarrow> 'n signal list
     \<Rightarrow> 'n row list \<Rightarrow> 'n row list" where
  "push_signals tid v sigs index [] reportData = reportData"
| "push_signals tid v sigs index (signal # rest) reportData =
     (let reading = or_zero (powertrainTransmissionTravelledDistance signal);
          distance =
            (if index > 0
             then reading - or_zero (powertrainTransmissionTravelledDistance (sigs ! (index - 1)))
             else 0)
      in push_signals tid v sigs (Suc index) rest
           (reportData @
            [\<lparr>tokenId = tid, vin = v, timestamp = or_na (sample_timestamp signal),
              odometerReading = Num reading, travelledDistance = distance\<rparr>]))"

definition fallback_row :: "string \<Rightarrow> string \<Rightarrow> ('n::zero) row" where
  "fallback_row tid v =
     \<lparr>tokenId = tid, vin = v, timestamp = ''N/A'', odometerReading = Str ''N/A'',
      travelledDistance = 0\<rparr>"

definition error_row :: "string \<Rightarrow> ('n::zero) row" where
  "error_row tid =
     \<lparr>tokenId = tid, vin = ''ERROR'', timestamp = ''ERROR'', odometerReading = Str ''ERROR'',
      travelledDistance = 0\<rparr>"

text \<open>
  The rest of the \<open>try\<close> block once the data object has been read: the \<open>if\<close> takes its
  first branch for every array, the empty one included (an empty array is truthy).
\<close>

definition push_telemetry ::
  "string \<Rightarrow> ('n::{zero,minus}) telemetry_data \<Rightarrow> 'n row list \<Rightarrow> 'n row list" where
  "push_telemetry tid d reportData =
     (let v = extract_vin (vinVCLatest d)
      in case signals d of
           Some sigs \<Rightarrow> push_signals tid v sigs 0 sigs reportData
         | None \<Rightarrow> reportData @ [fallback_row tid v])"


section \<open>The storage directory (\<open>tmpDir\<close>) and \<open>FileStorage\<close>\<close>

datatype exn =
  ENOENT | EACCES | SyntaxError | UpstreamError | TypeError | InvalidCharacterError

record config =
  clientId :: string
  apiKey :: string
  redirectUri :: string
  createdAt :: string

text \<open>
  The text of a file is kept up to what its readers can tell apart: the JSON text of a
  configuration object (what \<open>JSON.stringify(config, null, 2)\<close> writes and \<open>JSON.parse\<close>
  reads back), a CSV text (a line of titles, then one line of cells per record), or any
  other text, which \<open>JSON.parse\<close> rejects.
\<close>

datatype 'n content =
  JsonText config
| CsvText "string list" "'n cell list list"
| OtherText

record 'n stored =
  accessible :: bool
  content :: "'n content"

text \<open>
  The directory is flat.  \<open>dir_ok\<close> is false when the directory is missing or cannot be
  used; then every operation on it fails.  A file that is not \<open>accessible\<close> exists, but
  can be neither read nor overwritten.
\<close>

record 'n fs =
  dir_ok :: bool
  entries :: "(string \<times> 'n stored) list"

definition readFile :: "'n fs \<Rightarrow> string \<Rightarrow> exn + 'n content" where
  "readFile d name =
     (if \<not> dir_ok d then Inl ENOENT
      else case map_of (entries d) name of
             None \<Rightarrow> Inl ENOENT
           | Some f \<Rightarrow> (if accessible f then Inr (content f) else Inl EACCES))"

definition writeFile :: "'n fs \<Rightarrow> string \<Rightarrow> 'n content \<Rightarrow> exn + 'n fs" where
  "writeFile d name c =
     (if \<not> dir_ok d then Inl ENOENT
      else case map_of (entries d) name of
             Some f \<Rightarrow>
               (if accessible f
                then Inr (d\<lparr>entries := AList.update name (f\<lparr>content := c\<rparr>) (entries d)\<rparr>)
                else Inl EACCES)
           | None \<Rightarrow>
               Inr (d\<lparr>entries :=
                        AList.update name \<lparr>accessible = True, content = c\<rparr> (entries d)\<rparr>))"

definition access :: "'n fs \<Rightarrow> string \<Rightarrow> exn + unit" where
  "access d name =
     (if dir_ok d \<and> map_of (entries d) name \<noteq> None then Inr () else Inl ENOENT)"

definition unlink :: "'n fs \<Rightarrow> string \<Rightarrow> exn + 'n fs" where
  "unlink d name =
     (if dir_ok d \<and> map_of (entries d) name \<noteq> None
      then Inr (d\<lparr>entries := AList.delete name (entries d)\<rparr>)
      else Inl ENOENT)"

definition readdir :: "'n fs \<Rightarrow> exn + string list" where
  "readdir d = (if dir_ok d then Inr (map fst (entries d)) else Inl ENOENT)"

definition JSON_parse :: "'n content \<Rightarrow> exn + config" where
  "JSON_parse c = (case c of JsonText cfg \<Rightarrow> Inr cfg | _ \<Rightarrow> Inl SyntaxError)"

text \<open>\<open>String.prototype.endsWith\<close>\<close>

definition endsWith :: "string \<Rightarrow> string \<Rightarrow> bool" where
  "endsWith s suf \<longleftrightarrow>
     length suf \<le> length s \<and> drop (length s - length suf) s = suf"

definition configName :: string where
  "configName = ''app-config.json''"

definition saveConfig :: "'n fs \<Rightarrow> config \<Rightarrow> exn + 'n fs" where
  "saveConfig d cfg = writeFile d configName (JsonText cfg)"

text \<open>\<open>loadConfig\<close> catches every failure of the read and of the parse and returns null.\<close>

definition loadConfig :: "'n fs \<Rightarrow> config option" where
  "loadConfig d =
     (case readFile d configName of
        Inl e \<Rightarrow> None
      | Inr c \<Rightarrow> (case JSON_parse c of Inl e \<Rightarrow> None | Inr cfg \<Rightarrow> Some cfg))"

text \<open>
  \<open>listReports\<close> is an async method: \<open>Inl\<close> would be a rejected promise.  Its \<open>catch\<close>
  turns a failure of \<open>readdir\<close> into the empty list.
\<close>

definition listReports :: "'n fs \<Rightarrow> exn + string list" where
  "listReports d =
     (case readdir d of
        Inl e \<Rightarrow> Inr []
      | Inr names \<Rightarrow> Inr (filter (\<lambda>f. endsWith f ''.csv'') names))"


section \<open>The vendor SDK and the state of the server\<close>

text \<open>
  The DIMO SDK is outside the repository.  Its calls are parameters: each takes the state
  \<open>'w\<close> of the world outside the server and returns either the exception it raises or its
  value, with the new state of the world.
\<close>

record ('w, 'n) sdk =
  getDeveloperJwt :: "config \<Rightarrow> 'w \<Rightarrow> (exn + string) \<times> 'w"
  exchange :: "string \<Rightarrow> string \<Rightarrow> 'w \<Rightarrow> (exn + string) \<times> 'w"
  telemetry_query :: "string \<Rightarrow> string \<Rightarrow> 'w \<Rightarrow> (exn + 'n telemetry_result) \<times> 'w"

text \<open>What a handler has done so far, in order.\<close>

datatype event =
  LoadConfig
| GetDeveloperJwt
| Exchange string
| TelemetryQuery string
| WriteRecords string

record ('w, 'n) state =
  files :: "'n fs"
  vendor :: 'w
  calls :: "event list"

definition note_call :: "event \<Rightarrow> ('w, 'n) state \<Rightarrow> ('w, 'n) state" where
  "note_call e st = st\<lparr>calls := calls st @ [e]\<rparr>"

text \<open>The text of the telemetry query, a template literal over the token id and the dates.\<close>

definition telemetryQuery :: "string \<Rightarrow> string \<Rightarrow> string \<Rightarrow> string" where
  \<open>telemetryQuery tid startDate endDate =
     ''{ vinVCLatest(tokenId: '' @ tid @ '') { vin } signals(tokenId: '' @ tid @
     '', interval: "24h", from: "'' @ startDate @ ''T00:00:00Z", to: "'' @ endDate @
     ''T23:59:59Z") { powertrainTransmissionTravelledDistance (agg: MAX) timestamp } }''\<close>

text \<open>
  One turn of \<open>for (const tokenId of vehicleTokenIds)\<close>: the \<open>try\<close> block, whose \<open>catch\<close>
  pushes the error row.  The exchange is called with \<open>parseInt(tokenId)\<close>, which the
  parameter \<open>exchange\<close> receives as the token id itself.  Reading
  \<open>telemetryResult.data.signals\<close> raises a TypeError when the data object is null, before
  any row of the vehicle is pushed.
\<close>

definition process_vehicle ::
  "('w, 'n::{zero,minus}) sdk \<Rightarrow> string \<Rightarrow> string \<Rightarrow> string \<Rightarrow> string
     \<Rightarrow> 'n row list \<times> ('w, 'n) state \<Rightarrow> 'n row list \<times> ('w, 'n) state" where
  "process_vehicle api developerJwt startDate endDate tid acc =
     (case acc of (reportData, st) \<Rightarrow>
        (let st1 = note_call (Exchange tid) st
         in (case exchange api developerJwt tid (vendor st1) of
               (Inl e, w1) \<Rightarrow> (reportData @ [error_row tid], st1\<lparr>vendor := w1\<rparr>)
             | (Inr vehicleJwt, w1) \<Rightarrow>
                 (let st2 = note_call (TelemetryQuery tid) (st1\<lparr>vendor := w1\<rparr>)
                  in (case telemetry_query api vehicleJwt
                             (telemetryQuery tid startDate endDate) (vendor st2) of
                        (Inl e, w2) \<Rightarrow>
                          (reportData @ [error_row tid], st2\<lparr>vendor := w2\<rparr>)
                      | (Inr telemetryResult, w2) \<Rightarrow>
                          (case data telemetryResult of
                             None \<Rightarrow> (reportData @ [error_row tid], st2\<lparr>vendor := w2\<rparr>)
                           | Some d \<Rightarrow>
                               (push_telemetry tid d reportData,
                                st2\<lparr>vendor := w2\<rparr>)))))))"

fun vehicle_loop ::
  "('w, 'n::{zero,minus}) sdk \<Rightarrow> string \<Rightarrow> string \<Rightarrow> string \<Rightarrow> string list
     \<Rightarrow> 'n row list \<times> ('w, 'n) state \<Rightarrow> 'n row list \<times> ('w, 'n) state" where
  "vehicle_loop api developerJwt startDate endDate [] acc = acc"
| "vehicle_loop api developerJwt startDate endDate (tid # rest) acc =
     vehicle_loop api developerJwt startDate endDate rest
       (process_vehicle api developerJwt startDate endDate tid acc)"

section \<open>The CSV writer\<close>

definition csv_header :: "(string \<times> string) list" where
  "csv_header =
     [(''tokenId'', ''Token ID''), (''vin'', ''VIN''), (''timestamp'', ''Timestamp''),
      (''odometerReading'', ''Odometer Reading''),
      (''travelledDistance'', ''Travelled Distance'')]"

text \<open>\<open>record[id]\<close> for the keys of a report row; any other key is undefined, an empty cell.\<close>

definition row_field :: "string \<Rightarrow> 'n row \<Rightarrow> 'n cell" where
  "row_field k r =
     (if k = ''tokenId'' then Str (tokenId r)
      else if k = ''vin'' then Str (vin r)
      else if k = ''timestamp'' then Str (timestamp r)
      else if k = ''odometerReading'' then odometerReading r
      else if k = ''travelledDistance'' then Num (travelledDistance r)
      else Str [])"

text \<open>
  \<open>createObjectCsvWriter({path, header}).writeRecords(records)\<close>: the file is replaced by
  the line of titles followed, for each record, by its fields in the order of the header.
\<close>

definition writeRecords ::
  "'n fs \<Rightarrow> string \<Rightarrow> (string \<times> string) list \<Rightarrow> 'n row list \<Rightarrow> exn + 'n fs" where
  "writeRecords d name hdr records =
     writeFile d name
       (CsvText (map snd hdr) (map (\<lambda>r. map (\<lambda>h. row_field (fst h) r) hdr) records))"

text \<open>\<open>s.replace(/[:.]/g, '-')\<close>\<close>

fun replace_colon_dot :: "string \<Rightarrow> string" where
  "replace_colon_dot [] = []"
| "replace_colon_dot (c # cs) =
     (if c = CHR '':'' \<or> c = CHR ''.'' then CHR ''-'' else c) # replace_colon_dot cs"


section \<open>The routes\<close>

text \<open>A response is a status and a JSON body, or the file handed to \<open>res.download\<close>.\<close>

datatype 'n body =
  ErrorBody string
| ConfigBody config
| SavedBody string config
| MessageBody string
| GeneratedBody string string nat string
| ReportsBody "string list"
| FileBody string "'n stored"

type_synonym 'n response = "nat \<times> 'n body"

text \<open>\<open>!x\<close> on a nullable string\<close>

definition falsy :: "string option \<Rightarrow> bool" where
  "falsy x \<longleftrightarrow> x = None \<or> x = Some []"

definition or_default :: "string option \<Rightarrow> string \<Rightarrow> string" where
  "or_default x d = (case x of None \<Rightarrow> d | Some s \<Rightarrow> (if s = [] then d else s))"

subsection \<open>\<open>/api/config\<close>\<close>

record config_request =
  req_clientId :: "string option"
  req_apiKey :: "string option"
  req_redirectUri :: "string option"

definition get_config :: "'n fs \<Rightarrow> 'n response" where
  "get_config d =
     (case loadConfig d of
        None \<Rightarrow> (404, ErrorBody ''No configuration found'')
      | Some cfg \<Rightarrow> (200, ConfigBody cfg))"

text \<open>\<open>isoNow\<close> is \<open>new Date().toISOString()\<close> at the time of the request.\<close>

definition post_config :: "string \<Rightarrow> config_request \<Rightarrow> 'n fs \<Rightarrow> 'n response \<times> 'n fs" where
  "post_config isoNow req d =
     (if falsy (req_clientId req) \<or> falsy (req_apiKey req)
      then ((400, ErrorBody ''Client ID and API Key are required''), d)
      else
        (let cfg = \<lparr>clientId = or_default (req_clientId req) [],
                    apiKey = or_default (req_apiKey req) [],
                    redirectUri = or_default (req_redirectUri req) ''http://localhost:5173'',
                    createdAt = isoNow\<rparr>
         in (case saveConfig d cfg of
               Inl e \<Rightarrow> ((500, ErrorBody ''Failed to save configuration''), d)
             | Inr d' \<Rightarrow> ((200, SavedBody ''Configuration saved successfully'' cfg), d'))))"

definition delete_config :: "'n fs \<Rightarrow> 'n response \<times> 'n fs" where
  "delete_config d =
     (case access d configName of
        Inl e \<Rightarrow> ((404, ErrorBody ''No configuration found''), d)
      | Inr u \<Rightarrow>
          (case unlink d configName of
             Inl e \<Rightarrow> ((500, ErrorBody ''Failed to delete configuration''), d)
           | Inr d' \<Rightarrow> ((200, MessageBody ''Configuration deleted successfully''), d')))"

subsection \<open>\<open>POST /api/reports/generate\<close>\<close>

text \<open>\<open>req.body.vehicleTokenIds\<close>: absent or falsy, some value that is not an array, or an array.\<close>

datatype ids_field = Missing | NotArray | Array "string list"

record generate_request =
  vehicleTokenIds :: ids_field
  startDate :: "string option"
  endDate :: "string option"

text \<open>
  The \<open>try\<close> block of the handler once \<open>req.body\<close> has been destructured into the three
  fields.
\<close>

definition generate ::
  "('w, 'n::{zero,minus}) sdk \<Rightarrow> string \<Rightarrow> generate_request \<Rightarrow> ('w, 'n) state
     \<Rightarrow> 'n response \<times> ('w, 'n) state" where
  "generate api isoNow req st =
     (case vehicleTokenIds req of
        Missing \<Rightarrow> ((400, ErrorBody ''Vehicle token IDs are required''), st)
      | NotArray \<Rightarrow> ((400, ErrorBody ''Vehicle token IDs are required''), st)
      | Array ids \<Rightarrow>
          (if ids = [] then ((400, ErrorBody ''Vehicle token IDs are required''), st)
           else if falsy (startDate req) \<or> falsy (endDate req)
           then ((400, ErrorBody ''Start date and end date are required''), st)
           else
             (let st1 = note_call LoadConfig st
              in (case loadConfig (files st1) of
                    None \<Rightarrow>
                      ((400, ErrorBody
                          ''No configuration found. Please configure the app first.''), st1)
                  | Some cfg \<Rightarrow>
                      (let st2 = note_call GetDeveloperJwt st1
                       in (case getDeveloperJwt api cfg (vendor st2) of
                             (Inl e, w) \<Rightarrow>
                               ((500, ErrorBody ''Failed to generate report''),
                                st2\<lparr>vendor := w\<rparr>)
                           | (Inr developerJwt, w) \<Rightarrow>
                               (let stamp = replace_colon_dot isoNow;
                                    filename = ''vehicle-report-'' @ stamp @ ''.csv'';
                                    done = vehicle_loop api developerJwt
                                             (or_default (startDate req) [])
                                             (or_default (endDate req) []) ids
                                             ([], st2\<lparr>vendor := w\<rparr>);
                                    reportData = fst done;
                                    st3 = note_call (WriteRecords filename) (snd done)
                                in (case writeRecords (files st3) filename csv_header
                                           reportData of
                                      Inl e \<Rightarrow>
                                        ((500, ErrorBody ''Failed to generate report''), st3)
                                    | Inr d' \<Rightarrow>
                                        ((200, GeneratedBody ''Report generated successfully''
                                                 filename (length reportData)
                                                 (''/api/reports/download/'' @ filename)),
                                         st3\<lparr>files := d'\<rparr>)))))))))"

text \<open>
  The handler from its first line.  \<open>req.body\<close> is undefined when no body has been parsed
  (Express 5 leaves it so, for instance on a POST without a JSON content type); the
  destructuring \<open>const { vehicleTokenIds, startDate, endDate } = req.body\<close> then raises a
  TypeError inside the \<open>try\<close>, whose \<open>catch\<close> answers 500.
\<close>

definition generate_handler ::
  "('w, 'n::{zero,minus}) sdk \<Rightarrow> string \<Rightarrow> generate_request option \<Rightarrow> ('w, 'n) state
     \<Rightarrow> 'n response \<times> ('w, 'n) state" where
  "generate_handler api isoNow body st =
     (case body of
        None \<Rightarrow> ((500, ErrorBody ''Failed to generate report''), st)
      | Some req \<Rightarrow> generate api isoNow req st)"

subsection \<open>\<open>GET /api/reports/download/:filename\<close> and \<open>GET /api/reports\<close>\<close>

text \<open>
  A plain name is a single path segment: \<open>path.join(tmpDir, filename)\<close> then names the
  entry of that name in the directory.
\<close>

definition plain_name :: "string \<Rightarrow> bool" where
  "plain_name s \<longleftrightarrow>
     s \<noteq> [] \<and> s \<noteq> ''.'' \<and> s \<noteq> ''..'' \<and> CHR ''/'' \<notin> set s \<and> CHR 0x5C \<notin> set s"

text \<open>
  The handler tests \<open>fs.access\<close> on the joined path and, when that succeeds, hands the path
  to \<open>res.download\<close>; it answers 404 itself only when the test fails.  Two things lie outside
  the repository and are parameters.  \<open>exists_elsewhere\<close> tells whether the joined path
  exists for a name that is not plain, which may leave the directory.  \<open>res_download\<close> is
  what Express answers for the path it is handed, given the name and the entry found
  (\<open>None\<close> for a name that is not plain): it sends the file, or refuses (a path with a
  dotfile segment, a file it cannot read).
\<close>

definition download ::
  "(string \<Rightarrow> bool) \<Rightarrow> (string \<Rightarrow> 'n stored option \<Rightarrow> 'n response) \<Rightarrow> 'n fs \<Rightarrow> string
     \<Rightarrow> 'n response" where
  "download exists_elsewhere res_download d filename =
     (if plain_name filename
      then (case access d filename of
              Inl e \<Rightarrow> (404, ErrorBody ''Report file not found'')
            | Inr u \<Rightarrow> res_download filename (map_of (entries d) filename))
      else if exists_elsewhere filename then res_download filename None
      else (404, ErrorBody ''Report file not found''))"

definition get_reports :: "'n fs \<Rightarrow> 'n response" where
  "get_reports d =
     (case listReports d of
        Inl e \<Rightarrow> (500, ErrorBody ''Failed to list reports'')
      | Inr reports \<Rightarrow> (200, ReportsBody reports))"


subsection \<open>\<open>GET /api/vehicles\<close>: the mapping of the nodes\<close>









section \<open>The JWT check of the browser client (storage-service.js, dimo-api-service.js)\<close>

text \<open>
  A number of JavaScript: \<open>JSON.parse\<close> yields a finite number or, for a literal out of
  range, an infinity; NaN arises when a value is converted to a number.
\<close>

datatype number = NaN | Finite real | PlusInfinity | MinusInfinity

text \<open>
  The values of JavaScript that the check can meet as the \<open>exp\<close> member of a parsed payload
  and can return.  \<open>Object s\<close> is an array or an object, \<open>s\<close> being the string that its
  conversion to a primitive gives.
\<close>

datatype jsval =
  Undefined | Null | Boolean bool | Number number | String string | Object string

text \<open>
  What \<open>JSON.parse\<close> returns for the payload: null, an object with its \<open>exp\<close> member
  (\<open>Undefined\<close> when it has none), or a value without an \<open>exp\<close> member (a number, a
  string, a boolean, an array).
\<close>

datatype payload = JsonNull | JsonObject jsval | JsonOther

definition truthy :: "jsval \<Rightarrow> bool" where
  "truthy v =
     (case v of
        Undefined \<Rightarrow> False
      | Null \<Rightarrow> False
      | Boolean b \<Rightarrow> b
      | Number n \<Rightarrow> n \<noteq> NaN \<and> n \<noteq> Finite 0
      | String s \<Rightarrow> s \<noteq> []
      | Object s \<Rightarrow> True)"

text \<open>
  \<open>ToNumber\<close>.  The conversion of a string to a number belongs to the runtime and is the
  parameter \<open>stringToNumber\<close>.
\<close>

definition to_number :: "(string \<Rightarrow> number) \<Rightarrow> jsval \<Rightarrow> number" where
  "to_number stringToNumber v =
     (case v of
        Undefined \<Rightarrow> NaN
      | Null \<Rightarrow> Finite 0
      | Boolean b \<Rightarrow> Finite (if b then 1 else 0)
      | Number n \<Rightarrow> n
      | String s \<Rightarrow> stringToNumber s
      | Object s \<Rightarrow> stringToNumber s)"

text \<open>\<open>v > now\<close> for a finite integer \<open>now\<close>: false when \<open>v\<close> converts to NaN.\<close>

definition greater_than :: "(string \<Rightarrow> number) \<Rightarrow> jsval \<Rightarrow> int \<Rightarrow> bool" where
  "greater_than stringToNumber v now =
     (case to_number stringToNumber v of
        NaN \<Rightarrow> False
      | Finite x \<Rightarrow> x > real_of_int now
      | PlusInfinity \<Rightarrow> True
      | MinusInfinity \<Rightarrow> False)"

text \<open>\<open>s.split(c)\<close>\<close>

fun split_on :: "char \<Rightarrow> string \<Rightarrow> string list" where
  "split_on c [] = [[]]"
| "split_on c (x # xs) =
     (if x = c then [] # split_on c xs
      else (case split_on c xs of [] \<Rightarrow> [[x]] | p # ps \<Rightarrow> (x # p) # ps))"

text \<open>
  \<open>jwt.split('.')[1]\<close>, as \<open>atob\<close> receives it: an index out of range is undefined, which
  \<open>atob\<close> converts to the string \<open>undefined\<close>.
\<close>

definition payload_segment :: "string \<Rightarrow> string" where
  "payload_segment jwt =
     (let parts = split_on (CHR ''.'') jwt
      in if 1 < length parts then parts ! 1 else ''undefined'')"

text \<open>
  The \<open>try\<close> block.  \<open>atob\<close> and \<open>JSON.parse\<close> belong to the browser and are parameters;
  \<open>nowMs\<close> is \<open>Date.now()\<close>.
\<close>

definition isJWTValid_try ::
  "(string \<Rightarrow> exn + string) \<Rightarrow> (string \<Rightarrow> exn + payload) \<Rightarrow> (string \<Rightarrow> number) \<Rightarrow> int
     \<Rightarrow> string \<Rightarrow> exn + jsval" where
  "isJWTValid_try atob parse stringToNumber nowMs jwt =
     (case atob (payload_segment jwt) of
        Inl e \<Rightarrow> Inl e
      | Inr text \<Rightarrow>
          (case parse text of
             Inl e \<Rightarrow> Inl e
           | Inr p \<Rightarrow>
               (let now = nowMs div 1000
                in (case p of
                      JsonNull \<Rightarrow> Inl TypeError
                    | JsonOther \<Rightarrow> Inr Undefined
                    | JsonObject expv \<Rightarrow>
                        Inr (if truthy expv
                             then Boolean (greater_than stringToNumber expv now)
                             else expv)))))"

text \<open>\<open>StorageService.isJWTValid\<close>: the \<open>catch\<close> returns false.\<close>

definition isJWTValid ::
  "(string \<Rightarrow> exn + string) \<Rightarrow> (string \<Rightarrow> exn + payload) \<Rightarrow> (string \<Rightarrow> number) \<Rightarrow> int
     \<Rightarrow> string \<Rightarrow> jsval" where
  "isJWTValid atob parse stringToNumber nowMs jwt =
     (case isJWTValid_try atob parse stringToNumber nowMs jwt of
        Inl e \<Rightarrow> Boolean False
      | Inr v \<Rightarrow> v)"

text \<open>\<open>DimoApiService.isJwtValid\<close>: the same behind \<open>if (!jwt) return false\<close>.\<close>

definition isJwtValid ::
  "(string \<Rightarrow> exn + string) \<Rightarrow> (string \<Rightarrow> exn + payload) \<Rightarrow> (string \<Rightarrow> number) \<Rightarrow> int
     \<Rightarrow> string \<Rightarrow> jsval" where
  "isJwtValid atob parse stringToNumber nowMs jwt =
     (if jwt = [] then Boolean False else isJWTValid atob parse stringToNumber nowMs jwt)"


section \<open>Notions of the specification\<close>

text \<open>A sentinel row: the three text columns are \<open>ERROR\<close> and the distance is the number 0.\<close>

definition is_sentinel :: "('n::zero) row \<Rightarrow> bool" where
  "is_sentinel r \<longleftrightarrow>
     vin r = ''ERROR'' \<and> timestamp r = ''ERROR'' \<and> odometerReading r = Str ''ERROR'' \<and>
     travelledDistance r = 0"

text \<open>
  A vehicle fails, in a given state of the world, when its token exchange raises or, the
  exchange done, its telemetry query raises or resolves without a data object.
\<close>

definition vehicle_fails ::
  "('w, 'n) sdk \<Rightarrow> string \<Rightarrow> string \<Rightarrow> string \<Rightarrow> string \<Rightarrow> 'w \<Rightarrow> bool" where
  "vehicle_fails api developerJwt fromDay toDay tid w =
     (case exchange api developerJwt tid w of
        (Inl e, w1) \<Rightarrow> True
      | (Inr vehicleJwt, w1) \<Rightarrow>
          (case telemetry_query api vehicleJwt (telemetryQuery tid fromDay toDay) w1 of
             (Inl e, w2) \<Rightarrow> True
           | (Inr telemetryResult, w2) \<Rightarrow> data telemetryResult = None))"

text \<open>The world after the calls made for one vehicle.\<close>

definition world_after ::
  "('w, 'n) sdk \<Rightarrow> string \<Rightarrow> string \<Rightarrow> string \<Rightarrow> string \<Rightarrow> 'w \<Rightarrow> 'w" where
  "world_after api developerJwt fromDay toDay tid w =
     (case exchange api developerJwt tid w of
        (Inl e, w1) \<Rightarrow> w1
      | (Inr vehicleJwt, w1) \<Rightarrow>
          snd (telemetry_query api vehicleJwt (telemetryQuery tid fromDay toDay) w1))"

text \<open>The number of vehicles of a batch that fail, each in the world its predecessors left.\<close>

fun failures ::
  "('w, 'n) sdk \<Rightarrow> string \<Rightarrow> string \<Rightarrow> string \<Rightarrow> string list \<Rightarrow> 'w \<Rightarrow> nat" where
  "failures api developerJwt fromDay toDay [] w = 0"
| "failures api developerJwt fromDay toDay (tid # rest) w =
     (if vehicle_fails api developerJwt fromDay toDay tid w then 1 else 0) +
     failures api developerJwt fromDay toDay rest
       (world_after api developerJwt fromDay toDay tid w)"

text \<open>The vehicles whose token exchange has been called, in the order of the calls.\<close>

fun exchanged :: "event list \<Rightarrow> string list" where
  "exchanged [] = []"
| "exchanged (Exchange tid # es) = tid # exchanged es"
| "exchanged (e # es) = exchanged es"

section \<open>Concrete inputs for the examples\<close>

text \<open>
  A vendor that issues every token, except that the exchange for vehicle 13 raises; the
  telemetry of vehicle 42 has a VIN and an empty array of samples, that of any other
  vehicle has four samples and no VIN.  The world outside has no state.
\<close>

definition example_data :: "string \<Rightarrow> int telemetry_data" where
  "example_data vehicleJwt =
     (if vehicleJwt = ''jwt-42''
      then \<lparr>vinVCLatest = Some (Some ''VIN42''), signals = Some []\<rparr>
      else \<lparr>vinVCLatest = None,
            signals = Some
              [\<lparr>powertrainTransmissionTravelledDistance = Some 100,
                sample_timestamp = Some ''2024-01-01T00:00:00Z''\<rparr>,
               \<lparr>powertrainTransmissionTravelledDistance = Some 150,
                sample_timestamp = Some ''2024-01-02T00:00:00Z''\<rparr>,
               \<lparr>powertrainTransmissionTravelledDistance = Some 140,
                sample_timestamp = Some ''2024-01-03T00:00:00Z''\<rparr>,
               \<lparr>powertrainTransmissionTravelledDistance = Some 200,
                sample_timestamp = Some ''2024-01-04T00:00:00Z''\<rparr>]\<rparr>)"

definition example_sdk :: "(unit, int) sdk" where
  "example_sdk =
     \<lparr>getDeveloperJwt = (\<lambda>cfg w. (Inr ''developer-jwt'', w)),
      exchange =
        (\<lambda>developerJwt tid w.
           if tid = ''13'' then (Inl UpstreamError, w) else (Inr (''jwt-'' @ tid), w)),
      telemetry_query =
        (\<lambda>vehicleJwt q w. (Inr \<lparr>data = Some (example_data vehicleJwt)\<rparr>, w))\<rparr>"

definition example_config :: config where
  "example_config =
     \<lparr>clientId = ''0xabc'', apiKey = ''k1'', redirectUri = ''http://localhost:5173'',
      createdAt = ''2024-02-01T10:00:00.000Z''\<rparr>"

text \<open>A server whose directory holds the configuration and nothing else.\<close>

definition example_state :: "(unit, int) state" where
  "example_state =
     \<lparr>files =
        \<lparr>dir_ok = True,
         entries = [(''app-config.json'',
                     \<lparr>accessible = True, content = JsonText example_config\<rparr>)]\<rparr>,
      vendor = (), calls = []\<rparr>"

definition example_request :: "string list \<Rightarrow> generate_request" where
  "example_request ids =
     \<lparr>vehicleTokenIds = Array ids, startDate = Some ''2024-01-01'',
      endDate = Some ''2024-01-31''\<rparr>"

text \<open>
  The browser's \<open>atob\<close>, \<open>JSON.parse\<close> and conversion of strings to numbers on the
  arguments the examples use; everywhere else the first two raise and the third gives NaN.
\<close>

definition example_atob :: "string \<Rightarrow> exn + string" where
  \<open>example_atob s =
     (if s = ''e30'' then Inr ''{}''
      else if s = ''eyJleHAiOjIwMDB9'' then Inr ''{"exp":2000}''
      else if s = ''eyJleHAiOiIyMDAwIn0'' then Inr ''{"exp":"2000"}''
      else Inl InvalidCharacterError)\<close>

definition example_parse :: "string \<Rightarrow> exn + payload" where
  \<open>example_parse s =
     (if s = ''{}'' then Inr (JsonObject Undefined)
      else if s = ''{"exp":2000}'' then Inr (JsonObject (Number (Finite 2000)))
      else if s = ''{"exp":"2000"}'' then Inr (JsonObject (String ''2000''))
      else Inl SyntaxError)\<close>

definition example_stringToNumber :: "string \<Rightarrow> number" where
  "example_stringToNumber s = (if s = ''2000'' then Finite 2000 else NaN)"

text \<open>
  An installation none of whose directories starts with a dot and from which no name that
  is not plain leads to an existing path: \<open>res.download\<close> sends a readable file, refuses a
  dotfile with 404 and fails with 500 on a file it cannot read.
\<close>

definition example_elsewhere :: "string \<Rightarrow> bool" where
  "example_elsewhere filename = False"

definition example_res_download :: "string \<Rightarrow> int stored option \<Rightarrow> int response" where
  "example_res_download filename found =
     (case found of
        None \<Rightarrow> (404, ErrorBody ''Not Found'')
      | Some f \<Rightarrow>
          (if take 1 filename = ''.'' then (404, ErrorBody ''Not Found'')
           else if accessible f then (200, FileBody filename f)
           else (500, ErrorBody ''Internal Server Error'')))"

text \<open>
  A directory with the configuration, one report and a file that is no report; and a
  stand-in for \<open>toLocaleDateString\<close> on ISO timestamps, in a locale that writes
  year-month-day and in the time zone UTC.
\<close>

definition example_dir :: "int fs" where
  "example_dir =
     \<lparr>dir_ok = True,
      entries =
        [(''app-config.json'', \<lparr>accessible = True, content = JsonText example_config\<rparr>),
         (''vehicle-report-2024-02-01T10-20-30-456Z.csv'',
          \<lparr>accessible = True,
           content = CsvText (map snd csv_header) [[Str ''7'', Str ''N/A'', Str ''N/A'',
                                                   Str ''N/A'', Num 0]]\<rparr>),
         (''csv'', \<lparr>accessible = False, content = OtherText\<rparr>)]\<rparr>"



section \<open>The rows of one vehicle\<close>

lemma or_zero_eq: "or_zero x = (case x of None \<Rightarrow> 0 | Some v \<Rightarrow> v)"
  by (simp add: or_zero_def split: option.splits)

lemma or_na_eq:
  "or_na x = (case x of None \<Rightarrow> ''N/A'' | Some t \<Rightarrow> (if t = [] then ''N/A'' else t))"
  by (simp add: or_na_def)

text \<open>
  The loop over the samples in closed form: started at index \<open>k\<close> on the samples from
  \<open>k\<close> on, it appends the rows of the indices \<open>k, k + 1, ...\<close> in this order.  In
  particular it reads \<open>sigs ! (index - 1)\<close> only inside the array.
\<close>

lemma push_signals_closed:
  "drop k sigs = rest \<Longrightarrow>
   push_signals tid v sigs k rest acc =
     acc @
     map (\<lambda>i. \<lparr>tokenId = tid, vin = v, timestamp = or_na (sample_timestamp (sigs ! i)),
               odometerReading =
                 Num (or_zero (powertrainTransmissionTravelledDistance (sigs ! i))),
               travelledDistance =
                 (if i = 0 then 0
                  else or_zero (powertrainTransmissionTravelledDistance (sigs ! i)) -
                       or_zero (powertrainTransmissionTravelledDistance (sigs ! (i - 1))))\<rparr>)
       [k..<k + length rest]"
proof (induction rest arbitrary: k acc)
  case Nil
  then show ?case by simp
next
  case (Cons s rest)
  from Cons.prems have k: "k < length sigs"
    by (metis drop_eq_Nil linorder_not_less list.distinct(1))
  from Cons.prems k have s: "sigs ! k = s"
    by (metis Cons_nth_drop_Suc list.inject)
  from Cons.prems k have d: "drop (Suc k) sigs = rest"
    by (metis Cons_nth_drop_Suc list.inject)
  have u: "[k..<k + length (s # rest)] = k # [Suc k..<Suc k + length rest]"
    by (subst upt_rec) simp
  show ?case
    unfolding u using Cons.IH [OF d] s by (simp add: Let_def)
qed

text \<open>
  The rows of one vehicle whose data has an array of samples: one row per sample, in the
  order of the array, appended to the rows already there.
\<close>

lemma push_telemetry_rows:
  assumes "signals d = Some sigs"
  shows "push_telemetry tid d reportData =
     reportData @
     map (\<lambda>i. \<lparr>tokenId = tid, vin = extract_vin (vinVCLatest d),
               timestamp =
                 (case sample_timestamp (sigs ! i) of
                    None \<Rightarrow> ''N/A'' | Some t \<Rightarrow> (if t = [] then ''N/A'' else t)),
               odometerReading =
                 Num (case powertrainTransmissionTravelledDistance (sigs ! i) of
                        None \<Rightarrow> 0 | Some x \<Rightarrow> x),
               travelledDistance =
                 (if i = 0 then 0
                  else (case powertrainTransmissionTravelledDistance (sigs ! i) of
                          None \<Rightarrow> 0 | Some x \<Rightarrow> x) -
                       (case powertrainTransmissionTravelledDistance (sigs ! (i - 1)) of
                          None \<Rightarrow> 0 | Some x \<Rightarrow> x))\<rparr>)
       [0..<length sigs]"
  using assms push_signals_closed [of 0 sigs sigs tid "extract_vin (vinVCLatest d)" reportData]
  by (simp add: push_telemetry_def Let_def or_zero_eq or_na_eq)

lemma push_telemetry_example:
  "map odometerReading (push_telemetry ''7'' (example_data ''jwt-7'') []) =
     [Num 100, Num 150, Num 140, Num 200] \<and>
   map travelledDistance (push_telemetry ''7'' (example_data ''jwt-7'') []) =
     [0, 50, - 10, 60]"
  by (simp add: push_telemetry_def example_data_def extract_vin_def or_zero_def Let_def)

text \<open>
  Claim C3, at a vehicle whose query resolves with a VIN and an empty array of samples:
  the handler pushes no row for it, neither the \<open>N/A\<close> row nor any other, since the empty
  array takes the branch of the loop over the samples.
\<close>

theorem empty_signals_no_row:
  "push_telemetry ''42'' (example_data ''jwt-42'') [] = []"
  by (simp add: push_telemetry_def example_data_def)

text \<open>
  What holds of the claim: a missing VIN is rendered \<open>N/A\<close>, and a vehicle without an
  array of samples gets exactly the one \<open>N/A\<close> row.
\<close>

lemma extract_vin_missing:
  "extract_vin None = ''N/A''" "extract_vin (Some None) = ''N/A''"
  "extract_vin (Some (Some [])) = ''N/A''"
  by (simp_all add: extract_vin_def or_na_def)

lemma push_telemetry_no_signals:
  "signals d = None \<Longrightarrow>
   push_telemetry tid d reportData =
     reportData @
     [\<lparr>tokenId = tid, vin = extract_vin (vinVCLatest d), timestamp = ''N/A'',
       odometerReading = Str ''N/A'', travelledDistance = 0\<rparr>]"
  by (simp add: push_telemetry_def fallback_row_def)

section \<open>The loop over the vehicles\<close>

lemma error_row_sentinel: "is_sentinel (error_row tid)"
  by (simp add: is_sentinel_def error_row_def)

lemma fallback_row_no_sentinel: "\<not> is_sentinel (fallback_row tid v)"
  by (simp add: is_sentinel_def fallback_row_def)

text \<open>The rows of a resolved query are appended, and none of them is a sentinel.\<close>

lemma push_telemetry_appends:
  "\<exists>rows. push_telemetry tid d acc = acc @ rows \<and> (\<forall>r \<in> set rows. \<not> is_sentinel r) \<and>
      (signals d = None \<longrightarrow> rows = [fallback_row tid (extract_vin (vinVCLatest d))]) \<and>
      (\<forall>sigs. signals d = Some sigs \<longrightarrow> length rows = length sigs)"
proof (cases "signals d")
  case None
  then show ?thesis
    by (simp add: push_telemetry_def fallback_row_no_sentinel)
next
  case (Some sigs)
  with push_signals_closed [of 0 sigs sigs tid "extract_vin (vinVCLatest d)" acc]
  show ?thesis
    by (auto simp: push_telemetry_def is_sentinel_def)
qed

lemma process_vehicle_rows:
  "fst (process_vehicle api j sd ed tid (acc, st)) =
     (case exchange api j tid (vendor st) of
        (Inl e, w1) \<Rightarrow> acc @ [error_row tid]
      | (Inr vehicleJwt, w1) \<Rightarrow>
          (case telemetry_query api vehicleJwt (telemetryQuery tid sd ed) w1 of
             (Inl e, w2) \<Rightarrow> acc @ [error_row tid]
           | (Inr telemetryResult, w2) \<Rightarrow>
               (case data telemetryResult of
                  None \<Rightarrow> acc @ [error_row tid]
                | Some d \<Rightarrow> push_telemetry tid d acc)))"
  by (simp add: process_vehicle_def note_call_def Let_def
      split: prod.splits sum.splits option.splits)

text \<open>One turn of the loop: a failing vehicle gets the error row, any other the rows of its data.\<close>

lemma process_vehicle_outcome:
  "(vehicle_fails api j sd ed tid (vendor st) \<and>
      fst (process_vehicle api j sd ed tid (acc, st)) = acc @ [error_row tid]) \<or>
   (\<not> vehicle_fails api j sd ed tid (vendor st) \<and>
      (\<exists>d. fst (process_vehicle api j sd ed tid (acc, st)) = push_telemetry tid d acc))"
proof -
  obtain r1 w1 where e: "exchange api j tid (vendor st) = (r1, w1)"
    by (cases "exchange api j tid (vendor st)")
  show ?thesis
  proof (cases r1)
    case (Inl x)
    with e show ?thesis by (simp add: process_vehicle_rows vehicle_fails_def)
  next
    case (Inr vehicleJwt)
    obtain r2 w2 where
      q: "telemetry_query api vehicleJwt (telemetryQuery tid sd ed) w1 = (r2, w2)"
      by (cases "telemetry_query api vehicleJwt (telemetryQuery tid sd ed) w1")
    show ?thesis
    proof (cases r2)
      case (Inl y)
      with e Inr q show ?thesis by (simp add: process_vehicle_rows vehicle_fails_def)
    next
      case r: (Inr telemetryResult)
      with e Inr q show ?thesis
        by (cases "data telemetryResult")
          (auto simp: process_vehicle_rows vehicle_fails_def)
    qed
  qed
qed

lemma process_vehicle_world:
  "vendor (snd (process_vehicle api j sd ed tid (acc, st))) =
   world_after api j sd ed tid (vendor st)"
  by (auto simp: world_after_def process_vehicle_def note_call_def Let_def
      split: prod.splits sum.splits option.splits)

lemma process_vehicle_files:
  "files (snd (process_vehicle api j sd ed tid (acc, st))) = files st"
  by (auto simp: process_vehicle_def note_call_def Let_def
      split: prod.splits sum.splits option.splits)

lemma process_vehicle_sentinels:
  "length (filter is_sentinel (fst (process_vehicle api j sd ed tid (acc, st)))) =
   length (filter is_sentinel acc) +
   (if vehicle_fails api j sd ed tid (vendor st) then 1 else 0)"
proof (cases "vehicle_fails api j sd ed tid (vendor st)")
  case True
  with process_vehicle_outcome [of api j sd ed tid st acc] show ?thesis
    by (simp add: error_row_sentinel)
next
  case False
  with process_vehicle_outcome [of api j sd ed tid st acc] obtain d where
    "fst (process_vehicle api j sd ed tid (acc, st)) = push_telemetry tid d acc" by blast
  moreover from push_telemetry_appends [of tid d acc] obtain rows where
    "push_telemetry tid d acc = acc @ rows" "\<forall>r \<in> set rows. \<not> is_sentinel r" by blast
  ultimately show ?thesis using False by simp
qed

text \<open>
  The loop visits every vehicle, whatever happened to the ones before: the rows it
  accumulates hold exactly one sentinel per failing vehicle, on top of those already there.
\<close>

lemma vehicle_loop_sentinels:
  "length (filter is_sentinel (fst (vehicle_loop api j sd ed tids (acc, st)))) =
   length (filter is_sentinel acc) + failures api j sd ed tids (vendor st)"
proof (induction tids arbitrary: acc st)
  case Nil
  then show ?case by simp
next
  case (Cons tid tids)
  obtain acc' st' where p: "process_vehicle api j sd ed tid (acc, st) = (acc', st')"
    by (cases "process_vehicle api j sd ed tid (acc, st)")
  from p process_vehicle_sentinels [of api j sd ed tid acc st]
  have 1: "length (filter is_sentinel acc') =
     length (filter is_sentinel acc) +
     (if vehicle_fails api j sd ed tid (vendor st) then 1 else 0)"
    by simp
  from p process_vehicle_world [of api j sd ed tid acc st]
  have 2: "vendor st' = world_after api j sd ed tid (vendor st)" by simp
  show ?case using Cons.IH [of acc' st'] 1 2 p by simp
qed

lemma failures_le: "failures api j sd ed tids w \<le> length tids"
  by (induction tids arbitrary: w) (auto simp: le_SucI)

text \<open>Rows once pushed stay: the loop only appends.\<close>

lemma vehicle_loop_prefix:
  "prefix acc (fst (vehicle_loop api j sd ed tids (acc, st)))"
proof (induction tids arbitrary: acc st)
  case Nil
  then show ?case by simp
next
  case (Cons tid tids)
  obtain acc' st' where p: "process_vehicle api j sd ed tid (acc, st) = (acc', st')"
    by (cases "process_vehicle api j sd ed tid (acc, st)")
  have "prefix acc acc'"
  proof (cases "vehicle_fails api j sd ed tid (vendor st)")
    case True
    with process_vehicle_outcome [of api j sd ed tid st acc] p show ?thesis by simp
  next
    case False
    with process_vehicle_outcome [of api j sd ed tid st acc] p
      push_telemetry_appends [of tid _ acc]
    show ?thesis by (metis fst_conv prefixI)
  qed
  with Cons.IH [of acc' st'] p show ?case
    by (auto intro: prefix_order.trans)
qed

lemma vehicle_loop_append:
  "vehicle_loop api j sd ed (xs @ ys) acc =
   vehicle_loop api j sd ed ys (vehicle_loop api j sd ed xs acc)"
  by (induction xs arbitrary: acc) simp_all

lemma exchanged_append: "exchanged (es @ fs) = exchanged es @ exchanged fs"
  by (induction es rule: exchanged.induct) simp_all

lemma process_vehicle_exchanged:
  "exchanged (calls (snd (process_vehicle api j sd ed tid (acc, st)))) =
   exchanged (calls st) @ [tid]"
  by (auto simp: process_vehicle_def note_call_def Let_def exchanged_append
      split: prod.splits sum.splits option.splits)

text \<open>
  No failure ends the loop: whatever the vendor answers, the exchange is called for every
  vehicle of the batch, in the order of the batch.
\<close>

lemma vehicle_loop_visits_all:
  "exchanged (calls (snd (vehicle_loop api j sd ed tids (acc, st)))) =
   exchanged (calls st) @ tids"
proof (induction tids arbitrary: acc st)
  case Nil
  then show ?case by simp
next
  case (Cons tid tids)
  obtain acc' st' where p: "process_vehicle api j sd ed tid (acc, st) = (acc', st')"
    by (cases "process_vehicle api j sd ed tid (acc, st)")
  from p process_vehicle_exchanged [of api j sd ed tid acc st]
  have "exchanged (calls st') = exchanged (calls st) @ [tid]" by simp
  with Cons.IH [of acc' st'] p show ?case by simp
qed

text \<open>
  Claim C1, at a batch of one vehicle whose exchange and query both succeed, the query
  returning an empty array of samples: the vehicle does not fail, the report is generated
  and counts no row at all.
\<close>

theorem generate_empty_signals_no_row:
  "\<not> vehicle_fails example_sdk ''developer-jwt'' ''2024-01-01'' ''2024-01-31'' ''42'' () \<and>
   fst (generate example_sdk ''2024-02-01T10:20:30.456Z'' (example_request [''42''])
          example_state) =
     (200, GeneratedBody ''Report generated successfully''
             ''vehicle-report-2024-02-01T10-20-30-456Z.csv'' 0
             ''/api/reports/download/vehicle-report-2024-02-01T10-20-30-456Z.csv'')"
  by (simp add: vehicle_fails_def generate_def example_sdk_def example_request_def
      example_state_def example_config_def example_data_def falsy_def note_call_def
      loadConfig_def readFile_def configName_def JSON_parse_def process_vehicle_def
      push_telemetry_def writeRecords_def writeFile_def or_default_def Let_def)


section \<open>The configuration store\<close>

lemma readFile_writeFile:
  "writeFile d name c = Inr d' \<Longrightarrow> readFile d' name = Inr c"
  by (auto simp: writeFile_def readFile_def update_conv' split: if_splits option.splits)

lemma readFile_unlink:
  "unlink d name = Inr d' \<Longrightarrow> readFile d' name = Inl ENOENT"
  by (auto simp: unlink_def readFile_def delete_conv' split: if_splits)

lemma loadConfig_saveConfig: "saveConfig d cfg = Inr d' \<Longrightarrow> loadConfig d' = Some cfg"
  by (simp add: saveConfig_def loadConfig_def readFile_writeFile JSON_parse_def)

lemma post_config_ok:
  assumes "post_config isoNow req d = ((200, b), d')"
  shows "\<exists>cid key.
     req_clientId req = Some cid \<and> cid \<noteq> [] \<and> req_apiKey req = Some key \<and> key \<noteq> [] \<and>
     b = SavedBody ''Configuration saved successfully''
           \<lparr>clientId = cid, apiKey = key,
            redirectUri = or_default (req_redirectUri req) ''http://localhost:5173'',
            createdAt = isoNow\<rparr> \<and>
     saveConfig d
       \<lparr>clientId = cid, apiKey = key,
        redirectUri = or_default (req_redirectUri req) ''http://localhost:5173'',
        createdAt = isoNow\<rparr> = Inr d'"
  using assms
  by (auto simp: post_config_def falsy_def or_default_def Let_def
      split: if_splits sum.splits option.splits)

lemma post_config_valid:
  assumes "\<not> falsy (req_clientId req)" "\<not> falsy (req_apiKey req)" "dir_ok d"
    "case map_of (entries d) configName of None \<Rightarrow> True | Some f \<Rightarrow> accessible f"
  shows "fst (fst (post_config isoNow req d)) = 200"
  using assms
  by (auto simp: post_config_def saveConfig_def writeFile_def Let_def split: option.splits)

lemma delete_config_ok:
  assumes "delete_config d = ((200, b), d')"
  shows "unlink d configName = Inr d'"
  using assms by (auto simp: delete_config_def split: sum.splits)

text \<open>
  Claim C4.  A configuration that \<open>saveConfig\<close> has written is what \<open>loadConfig\<close> returns.
  When \<open>POST /api/config\<close> answers 200, which it does for a non-empty client id and API
  key on a usable directory whose configuration file, if any, can be written,
  \<open>loadConfig\<close> returns the saved
  record: the client id and the API key of the request, its redirect URI (the local
  default if it gave none) and the time of the request as \<open>createdAt\<close>.  After
  \<open>DELETE /api/config\<close> has answered 200, \<open>loadConfig\<close> returns null; and it returns
  null, raising nothing, when there is no configuration file, when the file cannot be
  read, and when its text does not parse.
\<close>

theorem config_roundtrip:
  "(saveConfig d cfg = Inr d1 \<longrightarrow> loadConfig d1 = Some cfg) \<and>
   (\<not> falsy (req_clientId req) \<and> \<not> falsy (req_apiKey req) \<and> dir_ok d \<and>
    (case map_of (entries d) configName of None \<Rightarrow> True | Some f \<Rightarrow> accessible f) \<longrightarrow>
      fst (fst (post_config isoNow req d)) = 200) \<and>
   (post_config isoNow req d = ((200, b), d2) \<longrightarrow>
      (\<exists>c. loadConfig d2 = Some c \<and> b = SavedBody ''Configuration saved successfully'' c \<and>
           req_clientId req = Some (clientId c) \<and> req_apiKey req = Some (apiKey c) \<and>
           redirectUri c =
             (case req_redirectUri req of
                None \<Rightarrow> ''http://localhost:5173''
              | Some u \<Rightarrow> (if u = [] then ''http://localhost:5173'' else u)) \<and>
           createdAt c = isoNow)) \<and>
   (delete_config d = ((200, b'), d3) \<longrightarrow> loadConfig d3 = None) \<and>
   (map_of (entries d) configName = None \<longrightarrow> loadConfig d = None) \<and>
   (readFile d configName = Inl e \<longrightarrow> loadConfig d = None) \<and>
   (readFile d configName = Inr c' \<and> JSON_parse c' = Inl e' \<longrightarrow> loadConfig d = None)"
proof (intro conjI impI)
  assume "saveConfig d cfg = Inr d1"
  then show "loadConfig d1 = Some cfg" by (rule loadConfig_saveConfig)
next
  assume "\<not> falsy (req_clientId req) \<and> \<not> falsy (req_apiKey req) \<and> dir_ok d \<and>
    (case map_of (entries d) configName of None \<Rightarrow> True | Some f \<Rightarrow> accessible f)"
  then show "fst (fst (post_config isoNow req d)) = 200"
    by (simp add: post_config_valid)
next
  assume "post_config isoNow req d = ((200, b), d2)"
  from post_config_ok [OF this] obtain cid key where
    r: "req_clientId req = Some cid" "req_apiKey req = Some key"
    and b: "b = SavedBody ''Configuration saved successfully''
           \<lparr>clientId = cid, apiKey = key,
            redirectUri = or_default (req_redirectUri req) ''http://localhost:5173'',
            createdAt = isoNow\<rparr>"
    and s: "saveConfig d
       \<lparr>clientId = cid, apiKey = key,
        redirectUri = or_default (req_redirectUri req) ''http://localhost:5173'',
        createdAt = isoNow\<rparr> = Inr d2"
    by blast
  from loadConfig_saveConfig [OF s] r b
  show "\<exists>c. loadConfig d2 = Some c \<and> b = SavedBody ''Configuration saved successfully'' c \<and>
           req_clientId req = Some (clientId c) \<and> req_apiKey req = Some (apiKey c) \<and>
           redirectUri c =
             (case req_redirectUri req of
                None \<Rightarrow> ''http://localhost:5173''
              | Some u \<Rightarrow> (if u = [] then ''http://localhost:5173'' else u)) \<and>
           createdAt c = isoNow"
    by (simp add: or_default_def)
next
  assume "delete_config d = ((200, b'), d3)"
  from readFile_unlink [OF delete_config_ok [OF this]]
  show "loadConfig d3 = None" by (simp add: loadConfig_def)
next
  assume "map_of (entries d) configName = None"
  then show "loadConfig d = None" by (simp add: loadConfig_def readFile_def)
next
  assume "readFile d configName = Inl e"
  then show "loadConfig d = None" by (simp add: loadConfig_def)
next
  assume "readFile d configName = Inr c' \<and> JSON_parse c' = Inl e'"
  then show "loadConfig d = None" by (simp add: loadConfig_def)
qed

text \<open>
  On an empty directory, saving the example configuration yields the directory of the
  example server, from which it is loaded back; deleting it empties the directory again.
\<close>

theorem config_roundtrip_witness:
  "post_config ''2024-02-01T10:00:00.000Z''
     \<lparr>req_clientId = Some ''0xabc'', req_apiKey = Some ''k1'', req_redirectUri = None\<rparr>
     \<lparr>dir_ok = True, entries = []\<rparr> =
     ((200, SavedBody ''Configuration saved successfully'' example_config),
      files example_state) \<and>
   loadConfig (files example_state) = Some example_config \<and>
   saveConfig \<lparr>dir_ok = True, entries = []\<rparr> example_config = Inr (files example_state) \<and>
   delete_config (files example_state) =
     ((200, MessageBody ''Configuration deleted successfully''),
      \<lparr>dir_ok = True, entries = []\<rparr>) \<and>
   loadConfig \<lparr>dir_ok = True, entries = []\<rparr> = None \<and>
   readFile example_dir ''csv'' = Inl EACCES \<and>
   readFile \<lparr>dir_ok = False, entries = entries (files example_state)\<rparr> configName =
     Inl ENOENT \<and>
   loadConfig \<lparr>dir_ok = False, entries = entries (files example_state)\<rparr> = None \<and>
   readFile
     \<lparr>dir_ok = True, entries = [(configName, \<lparr>accessible = True, content = OtherText\<rparr>)]\<rparr>
     configName = Inr OtherText \<and>
   JSON_parse OtherText = Inl SyntaxError \<and>
   loadConfig
     \<lparr>dir_ok = True, entries = [(configName, \<lparr>accessible = True, content = OtherText\<rparr>)]\<rparr> =
     None"
  using config_roundtrip [of "\<lparr>dir_ok = True, entries = []\<rparr>" example_config
       "files example_state"
       "\<lparr>req_clientId = Some ''0xabc'', req_apiKey = Some ''k1'', req_redirectUri = None\<rparr>"
       "''2024-02-01T10:00:00.000Z''"
       "SavedBody ''Configuration saved successfully'' example_config" "files example_state"]
  by (simp add: post_config_def falsy_def or_default_def saveConfig_def writeFile_def
      configName_def example_config_def example_state_def example_dir_def loadConfig_def
      readFile_def JSON_parse_def delete_config_def access_def unlink_def Let_def)

section \<open>The report store\<close>

lemma endsWith_suffix: "endsWith s suf \<longleftrightarrow> suffix suf s"
proof
  assume "endsWith s suf"
  then have "drop (length s - length suf) s = suf" by (simp add: endsWith_def)
  then show "suffix suf s" using suffix_drop [of "length s - length suf" s] by simp
next
  assume "suffix suf s"
  then obtain pre where "s = pre @ suf" by (auto simp: suffix_def)
  then show "endsWith s suf" by (simp add: endsWith_def)
qed

text \<open>
  Claim C9.  In every state of the directory \<open>listReports\<close> returns a list and raises
  nothing, and \<open>GET /api/reports\<close> answers 200 with that list.  Every name of the list ends
  in \<open>.csv\<close> and is an entry of the directory; the list is empty when the directory is
  missing or cannot be read, and otherwise it is the entries that end in \<open>.csv\<close>, in the
  order of the directory.
\<close>

theorem listReports_total:
  "\<exists>reports. listReports d = Inr reports \<and>
      get_reports d = (200, ReportsBody reports) \<and>
      (\<forall>f \<in> set reports. endsWith f ''.csv'' \<and> f \<in> fst ` set (entries d)) \<and>
      (\<not> dir_ok d \<longrightarrow> reports = []) \<and>
      (dir_ok d \<longrightarrow> reports = filter (\<lambda>f. suffix ''.csv'' f) (map fst (entries d)))"
  by (auto simp: listReports_def get_reports_def readdir_def endsWith_suffix)

theorem listReports_total_witness:
  "listReports example_dir = Inr [''vehicle-report-2024-02-01T10-20-30-456Z.csv''] \<and>
   get_reports example_dir =
     (200, ReportsBody [''vehicle-report-2024-02-01T10-20-30-456Z.csv'']) \<and>
   endsWith ''vehicle-report-2024-02-01T10-20-30-456Z.csv'' ''.csv'' \<and>
   \<not> dir_ok (example_dir\<lparr>dir_ok := False\<rparr>) \<and>
   listReports (example_dir\<lparr>dir_ok := False\<rparr>) = Inr [] \<and>
   get_reports (example_dir\<lparr>dir_ok := False\<rparr>) = (200, ReportsBody [])"
  using listReports_total [of example_dir]
    listReports_total [of "example_dir\<lparr>dir_ok := False\<rparr>"]
  by (simp add: listReports_def get_reports_def readdir_def endsWith_def example_dir_def)

text \<open>
  The handler refuses nothing that exists: for a plain name it answers 404 itself exactly
  when the directory is unusable or has no entry of that name, and otherwise the answer is
  that of \<open>res.download\<close> for the entry, whatever wrote it.
\<close>

lemma download_plain:
  "plain_name filename \<Longrightarrow>
   download exists_elsewhere res_download d filename =
     (case (if dir_ok d then map_of (entries d) filename else None) of
        None \<Rightarrow> (404, ErrorBody ''Report file not found'')
      | Some f \<Rightarrow> res_download filename (Some f))"
  by (simp add: download_def access_def split: option.splits)

text \<open>
  Claim C6, at the file of the configuration: after a configuration has been saved into an
  empty directory, and no report has ever been generated, the download of
  \<open>app-config.json\<close> is not answered 404; the file is handed to \<open>res.download\<close>, which
  sends it with the client id and the API key.
\<close>

theorem download_config_served:
  "plain_name ''app-config.json'' \<and>
   download example_elsewhere example_res_download
     (snd (post_config ''2024-02-01T10:00:00.000Z''
             \<lparr>req_clientId = Some ''0xabc'', req_apiKey = Some ''k1'',
              req_redirectUri = None\<rparr>
             \<lparr>dir_ok = True, entries = []\<rparr>))
     ''app-config.json'' =
   (200, FileBody ''app-config.json''
           \<lparr>accessible = True, content = JsonText example_config\<rparr>)"
  by (simp add: download_def plain_name_def access_def post_config_def falsy_def
      or_default_def saveConfig_def writeFile_def configName_def example_config_def
      example_res_download_def Let_def)

section \<open>Report generation\<close>

text \<open>
  Once the body has been destructured: when \<open>vehicleTokenIds\<close> is missing, not an array
  or empty, or when a date is missing, the request is answered 400 with a validation
  message and the state is left as it was, so that no call has been made.  With valid
  inputs and no configuration it is answered 400 with the configuration message, and
  loading the configuration is the only call made.
\<close>

lemma generate_guards:
  "(vehicleTokenIds req = Missing \<or> vehicleTokenIds req = NotArray \<or>
    vehicleTokenIds req = Array [] \<or> startDate req = None \<or> endDate req = None \<longrightarrow>
      (\<exists>msg. generate api isoNow req st = ((400, ErrorBody msg), st))) \<and>
   (vehicleTokenIds req = Missing \<or> vehicleTokenIds req = NotArray \<or>
    vehicleTokenIds req = Array [] \<longrightarrow>
      generate api isoNow req st = ((400, ErrorBody ''Vehicle token IDs are required''), st)) \<and>
   (vehicleTokenIds req = Array ids \<and> ids \<noteq> [] \<and>
    (falsy (startDate req) \<or> falsy (endDate req)) \<longrightarrow>
      generate api isoNow req st =
        ((400, ErrorBody ''Start date and end date are required''), st)) \<and>
   (vehicleTokenIds req = Array ids \<and> ids \<noteq> [] \<and> \<not> falsy (startDate req) \<and>
    \<not> falsy (endDate req) \<and> loadConfig (files st) = None \<longrightarrow>
      generate api isoNow req st =
        ((400, ErrorBody ''No configuration found. Please configure the app first.''),
         st\<lparr>calls := calls st @ [LoadConfig]\<rparr>))"
proof -
  have 1: "vehicleTokenIds req = Missing \<or> vehicleTokenIds req = NotArray \<or>
    vehicleTokenIds req = Array [] \<longrightarrow>
      generate api isoNow req st = ((400, ErrorBody ''Vehicle token IDs are required''), st)"
    by (auto simp: generate_def)
  have 2: "vehicleTokenIds req = Array ids \<and> ids \<noteq> [] \<and>
    (falsy (startDate req) \<or> falsy (endDate req)) \<longrightarrow>
      generate api isoNow req st =
        ((400, ErrorBody ''Start date and end date are required''), st)" for ids
    by (auto simp: generate_def)
  have 3: "vehicleTokenIds req = Array ids \<and> ids \<noteq> [] \<and> \<not> falsy (startDate req) \<and>
    \<not> falsy (endDate req) \<and> loadConfig (files st) = None \<longrightarrow>
      generate api isoNow req st =
        ((400, ErrorBody ''No configuration found. Please configure the app first.''),
         st\<lparr>calls := calls st @ [LoadConfig]\<rparr>)"
    by (auto simp: generate_def note_call_def)
  have 0: "vehicleTokenIds req = Missing \<or> vehicleTokenIds req = NotArray \<or>
    vehicleTokenIds req = Array [] \<or> startDate req = None \<or> endDate req = None \<longrightarrow>
      (\<exists>msg. generate api isoNow req st = ((400, ErrorBody msg), st))"
  proof (cases "vehicleTokenIds req")
    case Missing
    with 1 show ?thesis by simp
  next
    case NotArray
    with 1 show ?thesis by simp
  next
    case (Array xs)
    show ?thesis
    proof (cases "xs = []")
      case True
      with Array 1 show ?thesis by simp
    next
      case False
      with Array 2 [of xs] show ?thesis by (auto simp: falsy_def)
    qed
  qed
  from 0 1 2 3 show ?thesis by blast
qed

lemma generate_guards_example:
  "generate example_sdk ''2024-02-01T10:20:30.456Z'' (example_request []) example_state =
     ((400, ErrorBody ''Vehicle token IDs are required''), example_state) \<and>
   falsy None \<and>
   generate example_sdk ''2024-02-01T10:20:30.456Z''
      \<lparr>vehicleTokenIds = Array [''42''], startDate = None, endDate = Some ''2024-01-31''\<rparr>
      example_state =
     ((400, ErrorBody ''Start date and end date are required''), example_state) \<and>
   \<not> falsy (Some ''2024-01-01'') \<and> \<not> falsy (Some ''2024-01-31'') \<and>
   loadConfig (files (example_state\<lparr>files := \<lparr>dir_ok = True, entries = []\<rparr>\<rparr>)) = None \<and>
   generate example_sdk ''2024-02-01T10:20:30.456Z'' (example_request [''42''])
      (example_state\<lparr>files := \<lparr>dir_ok = True, entries = []\<rparr>\<rparr>) =
     ((400, ErrorBody ''No configuration found. Please configure the app first.''),
      example_state\<lparr>files := \<lparr>dir_ok = True, entries = []\<rparr>, calls := [LoadConfig]\<rparr>)"
  using
    generate_guards [where req = "example_request []" and api = example_sdk
        and isoNow = "''2024-02-01T10:20:30.456Z''" and st = example_state]
    generate_guards [where req = "\<lparr>vehicleTokenIds = Array [''42''], startDate = None,
        endDate = Some ''2024-01-31''\<rparr>" and ids = "[''42'']" and api = example_sdk
        and isoNow = "''2024-02-01T10:20:30.456Z''" and st = example_state]
    generate_guards [where req = "example_request [''42'']" and ids = "[''42'']"
        and api = example_sdk and isoNow = "''2024-02-01T10:20:30.456Z''"
        and st = "example_state\<lparr>files := \<lparr>dir_ok = True, entries = []\<rparr>\<rparr>"]
  by (simp add: falsy_def example_request_def example_state_def loadConfig_def readFile_def)

text \<open>
  Claim C5, at a request without a parsed body: \<open>vehicleTokenIds\<close> and both dates are
  missing, yet the answer is 500 and not the 400 of the validation, which the same fields
  get when the body is an empty object.  In both cases no call has been made.
\<close>

theorem generate_handler_no_body:
  "generate_handler example_sdk ''2024-02-01T10:20:30.456Z'' None example_state =
     ((500, ErrorBody ''Failed to generate report''), example_state) \<and>
   generate_handler example_sdk ''2024-02-01T10:20:30.456Z''
     (Some \<lparr>vehicleTokenIds = Missing, startDate = None, endDate = None\<rparr>) example_state =
     ((400, ErrorBody ''Vehicle token IDs are required''), example_state)"
  by (simp add: generate_handler_def generate_def)

lemma replace_colon_dot_map:
  "replace_colon_dot s =
   map (\<lambda>c. if c = CHR '':'' \<or> c = CHR ''.'' then CHR ''-'' else c) s"
  by (induction s) simp_all

lemma writeRecords_csv:
  assumes "writeRecords d name csv_header records = Inr d'"
  shows "readFile d' name =
     Inr (CsvText
            [''Token ID'', ''VIN'', ''Timestamp'', ''Odometer Reading'', ''Travelled Distance'']
            (map (\<lambda>r. [Str (tokenId r), Str (vin r), Str (timestamp r), odometerReading r,
                        Num (travelledDistance r)]) records))"
proof -
  have "map (\<lambda>r. map (\<lambda>h. row_field (fst h) r) csv_header) records =
        map (\<lambda>r. [Str (tokenId r), Str (vin r), Str (timestamp r), odometerReading r,
                   Num (travelledDistance r)]) records"
    by (simp add: csv_header_def row_field_def)
  moreover have "map snd csv_header =
     [''Token ID'', ''VIN'', ''Timestamp'', ''Odometer Reading'', ''Travelled Distance'']"
    by (simp add: csv_header_def)
  ultimately show ?thesis
    using readFile_writeFile [of d name _ d'] assms by (simp add: writeRecords_def)
qed

lemma generate_ok_cases:
  assumes "generate api isoNow req st = ((200, b), st')"
  shows "\<exists>records st3 d'.
     b = GeneratedBody ''Report generated successfully''
           (''vehicle-report-'' @ replace_colon_dot isoNow @ ''.csv'') (length records)
           (''/api/reports/download/'' @ ''vehicle-report-'' @ replace_colon_dot isoNow @
            ''.csv'') \<and>
     writeRecords (files st3) (''vehicle-report-'' @ replace_colon_dot isoNow @ ''.csv'')
        csv_header records = Inr d' \<and> st' = st3\<lparr>files := d'\<rparr>"
  using assms unfolding generate_def Let_def
  by (auto split: ids_field.splits if_splits option.splits prod.splits sum.splits)

lemma generate_ok_written:
  assumes "generate api isoNow req st = ((200, b), st')"
  shows "\<exists>ids sd ed cfg j w.
     vehicleTokenIds req = Array ids \<and> startDate req = Some sd \<and> endDate req = Some ed \<and>
     loadConfig (files st) = Some cfg \<and>
     getDeveloperJwt api cfg (vendor st) = (Inr j, w) \<and>
     writeRecords
       (files (snd (vehicle_loop api j sd ed ids
          ([], (note_call GetDeveloperJwt (note_call LoadConfig st))\<lparr>vendor := w\<rparr>))))
       (''vehicle-report-'' @ replace_colon_dot isoNow @ ''.csv'') csv_header
       (fst (vehicle_loop api j sd ed ids
          ([], (note_call GetDeveloperJwt (note_call LoadConfig st))\<lparr>vendor := w\<rparr>))) =
     Inr (files st')"
  using assms unfolding generate_def Let_def
  by (auto simp: note_call_def falsy_def or_default_def
      split: ids_field.splits if_splits option.splits prod.splits sum.splits)

text \<open>
  Claim C2.  Take a report generation that answers 200 and a vehicle \<open>tid\<close> of its batch,
  reached after the vehicles \<open>pre\<close> with the rows \<open>before\<close> accumulated, whose exchange
  and query resolve with an array \<open>sigs\<close> of samples.  Then the turn of the loop for
  \<open>tid\<close> appends to \<open>before\<close> one row per sample, in the order of the array: row \<open>i\<close>
  carries the token id and the VIN of the vehicle, the timestamp of sample \<open>i\<close> (\<open>N/A\<close>
  if it has none), as odometer reading the value of sample \<open>i\<close>, or 0 if the sample has
  none, and as travelled distance 0 for \<open>i = 0\<close> and otherwise the reading of row \<open>i\<close>
  minus the reading of row \<open>i - 1\<close>, both possibly defaulted; nothing clamps a negative
  difference.  And the CSV file of the report holds these rows, after those of the
  vehicles before and ahead of those of the vehicles after.
\<close>

theorem signals_rows:
  assumes g: "generate api isoNow req st = ((200, b), st')"
    and ids: "vehicleTokenIds req = Array (pre @ tid # post)"
    and dates: "startDate req = Some sd" "endDate req = Some ed"
    and cfg: "loadConfig (files st) = Some cfg"
    and jwt: "getDeveloperJwt api cfg (vendor st) = (Inr developerJwt, w)"
    and pre: "vehicle_loop api developerJwt sd ed pre
        ([], (note_call GetDeveloperJwt (note_call LoadConfig st))\<lparr>vendor := w\<rparr>) =
        (before, st1)"
    and ex: "exchange api developerJwt tid (vendor st1) = (Inr vehicleJwt, w1)"
    and q: "telemetry_query api vehicleJwt (telemetryQuery tid sd ed) w1 = (Inr res, w2)"
    and d: "data res = Some d" "signals d = Some sigs"
  shows "\<exists>after.
     fst (process_vehicle api developerJwt sd ed tid (before, st1)) =
       before @
       map (\<lambda>i. \<lparr>tokenId = tid, vin = extract_vin (vinVCLatest d),
                 timestamp =
                   (case sample_timestamp (sigs ! i) of
                      None \<Rightarrow> ''N/A'' | Some t \<Rightarrow> (if t = [] then ''N/A'' else t)),
                 odometerReading =
                   Num (case powertrainTransmissionTravelledDistance (sigs ! i) of
                          None \<Rightarrow> 0 | Some x \<Rightarrow> x),
                 travelledDistance =
                   (if i = 0 then 0
                    else (case powertrainTransmissionTravelledDistance (sigs ! i) of
                            None \<Rightarrow> 0 | Some x \<Rightarrow> x) -
                         (case powertrainTransmissionTravelledDistance (sigs ! (i - 1)) of
                            None \<Rightarrow> 0 | Some x \<Rightarrow> x))\<rparr>)
         [0..<length sigs] \<and>
     readFile (files st') (''vehicle-report-'' @ replace_colon_dot isoNow @ ''.csv'') =
       Inr (CsvText
              [''Token ID'', ''VIN'', ''Timestamp'', ''Odometer Reading'',
               ''Travelled Distance'']
              (map (\<lambda>r. [Str (tokenId r), Str (vin r), Str (timestamp r), odometerReading r,
                          Num (travelledDistance r)])
                 (fst (process_vehicle api developerJwt sd ed tid (before, st1)) @ after)))"
proof -
  let ?S0 = "(note_call GetDeveloperJwt (note_call LoadConfig st))\<lparr>vendor := w\<rparr>"
  let ?P = "process_vehicle api developerJwt sd ed tid (before, st1)"
  let ?L = "vehicle_loop api developerJwt sd ed (pre @ tid # post) ([], ?S0)"
  from generate_ok_written [OF g] ids dates cfg jwt
  have wr: "writeRecords (files (snd ?L))
       (''vehicle-report-'' @ replace_colon_dot isoNow @ ''.csv'') csv_header (fst ?L) =
     Inr (files st')"
    by auto
  have L: "?L = vehicle_loop api developerJwt sd ed post ?P"
    by (simp add: vehicle_loop_append pre)
  have "prefix (fst ?P) (fst (vehicle_loop api developerJwt sd ed post (fst ?P, snd ?P)))"
    by (rule vehicle_loop_prefix)
  with L obtain after where after: "fst ?L = fst ?P @ after"
    by (auto simp: prefix_def)
  from ex q d have "fst ?P = push_telemetry tid d before"
    by (simp add: process_vehicle_rows)
  with push_telemetry_rows [OF d(2), of tid before]
  have rows: "fst ?P =
       before @
       map (\<lambda>i. \<lparr>tokenId = tid, vin = extract_vin (vinVCLatest d),
                 timestamp =
                   (case sample_timestamp (sigs ! i) of
                      None \<Rightarrow> ''N/A'' | Some t \<Rightarrow> (if t = [] then ''N/A'' else t)),
                 odometerReading =
                   Num (case powertrainTransmissionTravelledDistance (sigs ! i) of
                          None \<Rightarrow> 0 | Some x \<Rightarrow> x),
                 travelledDistance =
                   (if i = 0 then 0
                    else (case powertrainTransmissionTravelledDistance (sigs ! i) of
                            None \<Rightarrow> 0 | Some x \<Rightarrow> x) -
                         (case powertrainTransmissionTravelledDistance (sigs ! (i - 1)) of
                            None \<Rightarrow> 0 | Some x \<Rightarrow> x))\<rparr>)
         [0..<length sigs]"
    by simp
  from writeRecords_csv [OF wr] after
  have csv: "readFile (files st')
       (''vehicle-report-'' @ replace_colon_dot isoNow @ ''.csv'') =
       Inr (CsvText
              [''Token ID'', ''VIN'', ''Timestamp'', ''Odometer Reading'',
               ''Travelled Distance'']
              (map (\<lambda>r. [Str (tokenId r), Str (vin r), Str (timestamp r), odometerReading r,
                          Num (travelledDistance r)])
                 (fst ?P @ after)))"
    by simp
  from rows csv show ?thesis by blast
qed

text \<open>
  In the batch of vehicles 13, 42 and 7, vehicle 7 is reached with the error row of
  vehicle 13 accumulated; its readings 100, 150, 140, 200 give the distances 0, 50, -10,
  60, and the file holds these four rows after the error row.
\<close>

theorem signals_rows_witness:
  "fst (generate example_sdk ''2024-02-01T10:20:30.456Z''
          (example_request [''13'', ''42'', ''7'']) example_state) =
     (200, GeneratedBody ''Report generated successfully''
             ''vehicle-report-2024-02-01T10-20-30-456Z.csv'' 5
             ''/api/reports/download/vehicle-report-2024-02-01T10-20-30-456Z.csv'') \<and>
   fst (vehicle_loop example_sdk ''developer-jwt'' ''2024-01-01'' ''2024-01-31'' [''13'', ''42'']
          ([], (note_call GetDeveloperJwt (note_call LoadConfig example_state))\<lparr>vendor := ()\<rparr>)) =
     [error_row ''13''] \<and>
   exchange example_sdk ''developer-jwt'' ''7'' () = (Inr ''jwt-7'', ()) \<and>
   telemetry_query example_sdk ''jwt-7''
     (telemetryQuery ''7'' ''2024-01-01'' ''2024-01-31'') () =
     (Inr \<lparr>data = Some (example_data ''jwt-7'')\<rparr>, ()) \<and>
   map_option (map powertrainTransmissionTravelledDistance) (signals (example_data ''jwt-7'')) =
     Some [Some 100, Some 150, Some 140, Some 200] \<and>
   map travelledDistance
     (fst (process_vehicle example_sdk ''developer-jwt'' ''2024-01-01'' ''2024-01-31'' ''7''
             ([],
              snd (vehicle_loop example_sdk ''developer-jwt'' ''2024-01-01'' ''2024-01-31''
                     [''13'', ''42'']
                     ([], (note_call GetDeveloperJwt (note_call LoadConfig example_state))
                            \<lparr>vendor := ()\<rparr>))))) =
     [0, 50, - 10, 60] \<and>
   readFile
     (files (snd (generate example_sdk ''2024-02-01T10:20:30.456Z''
                    (example_request [''13'', ''42'', ''7'']) example_state)))
     ''vehicle-report-2024-02-01T10-20-30-456Z.csv'' =
   Inr (CsvText
          [''Token ID'', ''VIN'', ''Timestamp'', ''Odometer Reading'', ''Travelled Distance'']
          [[Str ''13'', Str ''ERROR'', Str ''ERROR'', Str ''ERROR'', Num 0],
           [Str ''7'', Str ''N/A'', Str ''2024-01-01T00:00:00Z'', Num 100, Num 0],
           [Str ''7'', Str ''N/A'', Str ''2024-01-02T00:00:00Z'', Num 150, Num 50],
           [Str ''7'', Str ''N/A'', Str ''2024-01-03T00:00:00Z'', Num 140, Num (- 10)],
           [Str ''7'', Str ''N/A'', Str ''2024-01-04T00:00:00Z'', Num 200, Num 60]])"
  using signals_rows [where api = example_sdk and isoNow = "''2024-02-01T10:20:30.456Z''"
      and req = "example_request [''13'', ''42'', ''7'']" and st = example_state
      and b = "GeneratedBody ''Report generated successfully''
             ''vehicle-report-2024-02-01T10-20-30-456Z.csv'' 5
             ''/api/reports/download/vehicle-report-2024-02-01T10-20-30-456Z.csv''"
      and st' = "snd (generate example_sdk ''2024-02-01T10:20:30.456Z''
                    (example_request [''13'', ''42'', ''7'']) example_state)"
      and pre = "[''13'', ''42'']" and tid = "''7''" and post = "[]"
      and sd = "''2024-01-01''" and ed = "''2024-01-31''" and cfg = example_config
      and developerJwt = "''developer-jwt''" and w = "()"
      and before = "[error_row ''13'']"
      and ?st1.0 = "snd (vehicle_loop example_sdk ''developer-jwt'' ''2024-01-01'' ''2024-01-31''
                     [''13'', ''42'']
                     ([], (note_call GetDeveloperJwt (note_call LoadConfig example_state))
                            \<lparr>vendor := ()\<rparr>))"
      and vehicleJwt = "''jwt-7''" and ?w1.0 = "()" and ?w2.0 = "()"
      and res = "\<lparr>data = Some (example_data ''jwt-7'')\<rparr>"
      and d = "example_data ''jwt-7''"
      and sigs = "[\<lparr>powertrainTransmissionTravelledDistance = Some 100,
                sample_timestamp = Some ''2024-01-01T00:00:00Z''\<rparr>,
               \<lparr>powertrainTransmissionTravelledDistance = Some 150,
                sample_timestamp = Some ''2024-01-02T00:00:00Z''\<rparr>,
               \<lparr>powertrainTransmissionTravelledDistance = Some 140,
                sample_timestamp = Some ''2024-01-03T00:00:00Z''\<rparr>,
               \<lparr>powertrainTransmissionTravelledDistance = Some 200,
                sample_timestamp = Some ''2024-01-04T00:00:00Z''\<rparr>]"]
  by (simp add: generate_def example_sdk_def example_request_def
      example_state_def example_config_def example_data_def falsy_def note_call_def
      loadConfig_def readFile_def configName_def JSON_parse_def process_vehicle_def
      push_telemetry_def writeRecords_def writeFile_def or_default_def Let_def
      error_row_def extract_vin_def or_na_def or_zero_def csv_header_def row_field_def)

text \<open>
  Claim C8.  When report generation answers 200, the file name it reports is
  \<open>vehicle-report-\<close>, the ISO timestamp of the request with every colon and every dot
  replaced by a hyphen, and \<open>.csv\<close>; and the file of that name in the directory is a CSV
  whose titles are Token ID, VIN, Timestamp, Odometer Reading, Travelled Distance, in this
  order, each record giving its five fields in the same order; the response counts the
  records.
\<close>

theorem report_artifact:
  assumes "generate api isoNow req st = ((200, b :: 'n body), st')"
  shows "\<exists>records :: ('n::{zero,minus}) row list.
     b = GeneratedBody ''Report generated successfully''
           (''vehicle-report-'' @
            map (\<lambda>c. if c = CHR '':'' \<or> c = CHR ''.'' then CHR ''-'' else c) isoNow @ ''.csv'')
           (length records)
           (''/api/reports/download/'' @ ''vehicle-report-'' @
            map (\<lambda>c. if c = CHR '':'' \<or> c = CHR ''.'' then CHR ''-'' else c) isoNow @
            ''.csv'') \<and>
     readFile (files st')
       (''vehicle-report-'' @
        map (\<lambda>c. if c = CHR '':'' \<or> c = CHR ''.'' then CHR ''-'' else c) isoNow @ ''.csv'') =
     Inr (CsvText
            [''Token ID'', ''VIN'', ''Timestamp'', ''Odometer Reading'', ''Travelled Distance'']
            (map (\<lambda>r. [Str (tokenId r), Str (vin r), Str (timestamp r), odometerReading r,
                        Num (travelledDistance r)]) records))"
proof -
  from generate_ok_cases [OF assms] obtain records st3 d' where
    b: "b = GeneratedBody ''Report generated successfully''
           (''vehicle-report-'' @ replace_colon_dot isoNow @ ''.csv'') (length records)
           (''/api/reports/download/'' @ ''vehicle-report-'' @ replace_colon_dot isoNow @
            ''.csv'')"
    and w: "writeRecords (files st3)
        (''vehicle-report-'' @ replace_colon_dot isoNow @ ''.csv'') csv_header records =
        Inr d'"
    and st': "st' = st3\<lparr>files := d'\<rparr>"
    by blast
  from writeRecords_csv [OF w] st' have
    r: "readFile (files st') (''vehicle-report-'' @ replace_colon_dot isoNow @ ''.csv'') =
     Inr (CsvText
            [''Token ID'', ''VIN'', ''Timestamp'', ''Odometer Reading'', ''Travelled Distance'']
            (map (\<lambda>r. [Str (tokenId r), Str (vin r), Str (timestamp r), odometerReading r,
                        Num (travelledDistance r)]) records))"
    by simp
  show ?thesis
    unfolding replace_colon_dot_map [symmetric] using b r by blast
qed

text \<open>
  A batch of three: vehicle 13 fails its exchange, vehicle 42 has no sample, vehicle 7 has
  four.
\<close>

theorem report_artifact_witness:
  "generate example_sdk ''2024-02-01T10:20:30.456Z'' (example_request [''13'', ''42'', ''7''])
     example_state =
     ((200, GeneratedBody ''Report generated successfully''
              ''vehicle-report-2024-02-01T10-20-30-456Z.csv'' 5
              ''/api/reports/download/vehicle-report-2024-02-01T10-20-30-456Z.csv''),
      snd (generate example_sdk ''2024-02-01T10:20:30.456Z''
             (example_request [''13'', ''42'', ''7'']) example_state)) \<and>
   readFile
     (files (snd (generate example_sdk ''2024-02-01T10:20:30.456Z''
                    (example_request [''13'', ''42'', ''7'']) example_state)))
     ''vehicle-report-2024-02-01T10-20-30-456Z.csv'' =
   Inr (CsvText
          [''Token ID'', ''VIN'', ''Timestamp'', ''Odometer Reading'', ''Travelled Distance'']
          [[Str ''13'', Str ''ERROR'', Str ''ERROR'', Str ''ERROR'', Num 0],
           [Str ''7'', Str ''N/A'', Str ''2024-01-01T00:00:00Z'', Num 100, Num 0],
           [Str ''7'', Str ''N/A'', Str ''2024-01-02T00:00:00Z'', Num 150, Num 50],
           [Str ''7'', Str ''N/A'', Str ''2024-01-03T00:00:00Z'', Num 140, Num (- 10)],
           [Str ''7'', Str ''N/A'', Str ''2024-01-04T00:00:00Z'', Num 200, Num 60]])"
  using report_artifact [of example_sdk "''2024-02-01T10:20:30.456Z''"
      "example_request [''13'', ''42'', ''7'']" example_state
      "GeneratedBody ''Report generated successfully''
              ''vehicle-report-2024-02-01T10-20-30-456Z.csv'' 5
              ''/api/reports/download/vehicle-report-2024-02-01T10-20-30-456Z.csv''"
      "snd (generate example_sdk ''2024-02-01T10:20:30.456Z''
             (example_request [''13'', ''42'', ''7'']) example_state)"]
  by (simp add: generate_def example_sdk_def example_request_def
      example_state_def example_config_def example_data_def falsy_def note_call_def
      loadConfig_def readFile_def configName_def JSON_parse_def process_vehicle_def
      push_telemetry_def writeRecords_def writeFile_def or_default_def Let_def
      error_row_def extract_vin_def or_na_def or_zero_def csv_header_def row_field_def)


section \<open>The vehicle listing\<close>





section \<open>The JWT check\<close>

lemma split_on_no_sep: "c \<notin> set s \<Longrightarrow> split_on c s = [s]"
  by (induction s) auto

lemma payload_segment_no_dot:
  "CHR ''.'' \<notin> set jwt \<Longrightarrow> payload_segment jwt = ''undefined''"
  by (simp add: payload_segment_def split_on_no_sep)

lemma isJWTValid_truthy:
  assumes "truthy (isJWTValid atob parse stringToNumber nowMs jwt)"
  shows "isJWTValid atob parse stringToNumber nowMs jwt = Boolean True \<and>
     (\<exists>text expv. atob (payload_segment jwt) = Inr text \<and>
         parse text = Inr (JsonObject expv) \<and>
         (to_number stringToNumber expv = PlusInfinity \<or>
          (\<exists>x. to_number stringToNumber expv = Finite x \<and> real_of_int (nowMs div 1000) < x)))"
proof -
  from assms obtain decoded p where a: "atob (payload_segment jwt) = Inr decoded"
    and p: "parse decoded = Inr p"
    by (auto simp: isJWTValid_def isJWTValid_try_def truthy_def split: sum.splits)
  from assms a p obtain expv where e: "p = JsonObject expv"
    by (cases p) (auto simp: isJWTValid_def isJWTValid_try_def truthy_def)
  from assms a p e have t: "truthy expv"
    by (auto simp: isJWTValid_def isJWTValid_try_def split: if_splits)
  with assms a p e have r: "isJWTValid atob parse stringToNumber nowMs jwt =
      Boolean (greater_than stringToNumber expv (nowMs div 1000))"
    by (simp add: isJWTValid_def isJWTValid_try_def)
  with assms have g: "greater_than stringToNumber expv (nowMs div 1000)"
    by (simp add: truthy_def)
  then have "to_number stringToNumber expv = PlusInfinity \<or>
      (\<exists>x. to_number stringToNumber expv = Finite x \<and> real_of_int (nowMs div 1000) < x)"
    by (cases "to_number stringToNumber expv") (simp_all add: greater_than_def)
  with r g a p e show ?thesis by auto
qed

text \<open>
  In terms of truthiness both checks are total and closed on failure.  They return a value
  for every string and raise nothing: whatever the \<open>try\<close> block raises becomes false.  They
  return a truthy value only when the payload segment decodes and parses to an object whose
  \<open>exp\<close> is, as a number, strictly greater than the current time in whole seconds, and
  then the value is true.  A string without a dot hands \<open>undefined\<close> to \<open>atob\<close>.  When
  \<open>atob\<close> or \<open>JSON.parse\<close> raises, or the payload is null, the result is false.  When the
  payload has no \<open>exp\<close>, or a falsy one, the result is that falsy value itself.
\<close>

lemma jwt_check_fail_closed:
  "(truthy (isJWTValid atob parse stringToNumber nowMs jwt) \<longrightarrow>
      isJWTValid atob parse stringToNumber nowMs jwt = Boolean True \<and>
      (\<exists>text expv. atob (payload_segment jwt) = Inr text \<and>
          parse text = Inr (JsonObject expv) \<and>
          (to_number stringToNumber expv = PlusInfinity \<or>
           (\<exists>x. to_number stringToNumber expv = Finite x \<and>
                real_of_int (nowMs div 1000) < x)))) \<and>
   (truthy (isJwtValid atob parse stringToNumber nowMs jwt) \<longrightarrow>
      isJwtValid atob parse stringToNumber nowMs jwt = Boolean True \<and>
      (\<exists>text expv. atob (payload_segment jwt) = Inr text \<and>
          parse text = Inr (JsonObject expv) \<and>
          (to_number stringToNumber expv = PlusInfinity \<or>
           (\<exists>x. to_number stringToNumber expv = Finite x \<and>
                real_of_int (nowMs div 1000) < x)))) \<and>
   (isJWTValid_try atob parse stringToNumber nowMs jwt = Inl e \<longrightarrow>
      isJWTValid atob parse stringToNumber nowMs jwt = Boolean False \<and>
      isJwtValid atob parse stringToNumber nowMs jwt = Boolean False) \<and>
   (CHR ''.'' \<notin> set jwt \<longrightarrow> payload_segment jwt = ''undefined'') \<and>
   (atob (payload_segment jwt) = Inl e \<longrightarrow>
      isJWTValid atob parse stringToNumber nowMs jwt = Boolean False \<and>
      isJwtValid atob parse stringToNumber nowMs jwt = Boolean False) \<and>
   (atob (payload_segment jwt) = Inr text \<and> parse text = Inl e \<longrightarrow>
      isJWTValid atob parse stringToNumber nowMs jwt = Boolean False \<and>
      isJwtValid atob parse stringToNumber nowMs jwt = Boolean False) \<and>
   (atob (payload_segment jwt) = Inr text \<and> parse text = Inr JsonNull \<longrightarrow>
      isJWTValid atob parse stringToNumber nowMs jwt = Boolean False \<and>
      isJwtValid atob parse stringToNumber nowMs jwt = Boolean False) \<and>
   (atob (payload_segment jwt) = Inr text \<and> parse text = Inr JsonOther \<longrightarrow>
      isJWTValid atob parse stringToNumber nowMs jwt = Undefined \<and>
      (jwt \<noteq> [] \<longrightarrow> isJwtValid atob parse stringToNumber nowMs jwt = Undefined)) \<and>
   (atob (payload_segment jwt) = Inr text \<and> parse text = Inr (JsonObject expv) \<and>
    \<not> truthy expv \<longrightarrow>
      isJWTValid atob parse stringToNumber nowMs jwt = expv \<and>
      (jwt \<noteq> [] \<longrightarrow> isJwtValid atob parse stringToNumber nowMs jwt = expv)) \<and>
   (atob (payload_segment jwt) = Inr text \<and> parse text = Inr (JsonObject expv) \<and>
    truthy expv \<longrightarrow>
      isJWTValid atob parse stringToNumber nowMs jwt =
        Boolean (greater_than stringToNumber expv (nowMs div 1000)))"
proof -
  have a: "truthy (isJWTValid atob parse stringToNumber nowMs jwt) \<longrightarrow>
      isJWTValid atob parse stringToNumber nowMs jwt = Boolean True \<and>
      (\<exists>text expv. atob (payload_segment jwt) = Inr text \<and>
          parse text = Inr (JsonObject expv) \<and>
          (to_number stringToNumber expv = PlusInfinity \<or>
           (\<exists>x. to_number stringToNumber expv = Finite x \<and>
                real_of_int (nowMs div 1000) < x)))"
    using isJWTValid_truthy by blast
  have b: "truthy (isJwtValid atob parse stringToNumber nowMs jwt) \<longrightarrow>
      isJwtValid atob parse stringToNumber nowMs jwt = Boolean True \<and>
      (\<exists>text expv. atob (payload_segment jwt) = Inr text \<and>
          parse text = Inr (JsonObject expv) \<and>
          (to_number stringToNumber expv = PlusInfinity \<or>
           (\<exists>x. to_number stringToNumber expv = Finite x \<and>
                real_of_int (nowMs div 1000) < x)))"
    using isJWTValid_truthy [of atob parse stringToNumber nowMs jwt]
    by (simp add: isJwtValid_def truthy_def split: if_splits)
  have c: "CHR ''.'' \<notin> set jwt \<longrightarrow> payload_segment jwt = ''undefined''"
    by (simp add: payload_segment_no_dot)
  show ?thesis
    by (intro conjI a b c)
      (auto simp: isJwtValid_def isJWTValid_def isJWTValid_try_def)
qed

text \<open>
  With the clock at 1000 s a token expiring at 2000 s is valid, also when \<open>exp\<close> is the
  string \<open>2000\<close>; with the clock at 2000 s it is not; a string without a dot is not.
\<close>

lemma jwt_check_examples:
  "isJWTValid example_atob example_parse example_stringToNumber 1000000
     ''h.eyJleHAiOjIwMDB9.s'' = Boolean True \<and>
   isJwtValid example_atob example_parse example_stringToNumber 1000000
     ''h.eyJleHAiOiIyMDAwIn0.s'' = Boolean True \<and>
   isJWTValid example_atob example_parse example_stringToNumber 2000000
     ''h.eyJleHAiOjIwMDB9.s'' = Boolean False \<and>
   isJWTValid_try example_atob example_parse example_stringToNumber 1000000 ''garbage'' =
     Inl InvalidCharacterError \<and>
   isJWTValid example_atob example_parse example_stringToNumber 1000000 ''garbage'' =
     Boolean False"
  by (simp add: isJWTValid_def isJwtValid_def isJWTValid_try_def payload_segment_def
      example_atob_def example_parse_def example_stringToNumber_def truthy_def
      greater_than_def to_number_def)

text \<open>
  Claim C10, at a token whose payload is the empty object: both checks return undefined,
  the value of \<open>payload.exp && payload.exp > now\<close> for a missing \<open>exp\<close>, and not the
  boolean false.
\<close>

theorem jwt_without_exp_undefined:
  "example_atob (payload_segment ''h.e30.s'') = Inr ''{}'' \<and>
   example_parse ''{}'' = Inr (JsonObject Undefined) \<and>
   isJWTValid example_atob example_parse example_stringToNumber 1000000 ''h.e30.s'' =
     Undefined \<and>
   isJwtValid example_atob example_parse example_stringToNumber 1000000 ''h.e30.s'' =
     Undefined \<and>
   Undefined \<noteq> Boolean False"
  by (simp add: isJWTValid_def isJwtValid_def isJWTValid_try_def payload_segment_def
      example_atob_def example_parse_def truthy_def)

end
